theory Spec2Isabelle
  imports Complex_Main "HOL-Library.Word"
begin

section \<open>JavaScript strings\<close>

text \<open>
  A JavaScript string is a sequence of UTF-16 code units. The user-facing texts of the
  program are Chinese, so they are written here as their code units.
\<close>

type_synonym js_string = "16 word list"

text \<open>
  \<open>String.prototype.trim\<close> removes, at both ends, the code units that ECMAScript calls
  WhiteSpace or LineTerminator: TAB, LF, VT, FF, CR, SPACE, NBSP, the Unicode space
  separators (U+1680, U+2000 to U+200A, U+202F, U+205F, U+3000), U+2028, U+2029 and
  U+FEFF.
\<close>

definition isWhiteSpace :: "16 word \<Rightarrow> bool" where
  "isWhiteSpace c \<longleftrightarrow>
     c = 0x9 \<or> c = 0xA \<or> c = 0xB \<or> c = 0xC \<or> c = 0xD \<or> c = 0x20 \<or> c = 0xA0 \<or>
     c = 0x1680 \<or> (0x2000 \<le> c \<and> c \<le> 0x200A) \<or> c = 0x2028 \<or> c = 0x2029 \<or>
     c = 0x202F \<or> c = 0x205F \<or> c = 0x3000 \<or> c = 0xFEFF"

definition trim :: "js_string \<Rightarrow> js_string" where
  "trim s = rev (dropWhile isWhiteSpace (rev (dropWhile isWhiteSpace s)))"

text \<open>The texts of useOrderTracking.ts, as code units.\<close>

definition MSG_NOT_FOUND :: js_string where
  \<comment> \<open>the text of \<open>new Error(...)\<close> thrown when the lookup has no row\<close>
  "MSG_NOT_FOUND = [0x672A, 0x627E, 0x5230, 0x8BE5, 0x8BA2, 0x5355, 0x4FE1, 0x606F, 0xFF0C,
     0x8BF7, 0x68C0, 0x67E5, 0x5355, 0x53F7]"

definition MSG_QUERY_FAILED :: js_string where
  \<comment> \<open>the fallback text of the catch block\<close>
  "MSG_QUERY_FAILED = [0x67E5, 0x8BE2, 0x5931, 0x8D25, 0xFF0C, 0x8BF7, 0x7A0D, 0x540E,
     0x91CD, 0x8BD5]"

definition MSG_NEW_TRAJECTORY :: js_string where
  \<comment> \<open>the success text of the INSERT handler\<close>
  "MSG_NEW_TRAJECTORY = [0x6709, 0x65B0, 0x7684, 0x7269, 0x6D41, 0x52A8, 0x6001]"

definition MSG_TRAJECTORY_LOAD_FAILED :: js_string where
  "MSG_TRAJECTORY_LOAD_FAILED = [0x8F68, 0x8FF9, 0x52A0, 0x8F7D, 0x5931, 0x8D25]"

definition MSG_ITEMS_LOAD_FAILED :: js_string where
  "MSG_ITEMS_LOAD_FAILED = [0x7269, 0x54C1, 0x52A0, 0x8F7D, 0x5931, 0x8D25]"

section \<open>Data model\<close>

text \<open>
  Modelled from the spec: the types \<open>Order\<close> and \<open>TrajectoryPoint\<close>, which are
  declared in \<open>@/types/order\<close>, a file that is not among the sources. The fields are
  those of the spec's data model that the code reads (\<open>id\<close> and \<open>status\<close> of an
  order; \<open>order_id\<close>, \<open>status\<close>, \<open>description\<close> and \<open>timestamp\<close> of a point).
  The timestamp is the instant of the event as a number of time units: a larger one is
  more recent. \<open>OrderItem\<close> and \<open>TrackingData\<close> are as in the hook's types file; the
  \<open>number\<close> fields of an item are read as reals and are never computed with here.
\<close>

record Order =
  o_id :: js_string
  o_order_number :: js_string
  o_status :: js_string

record TrajectoryPoint =
  t_id :: js_string
  t_order_id :: js_string
  t_status :: js_string
  description :: js_string
  timestamp :: nat

record OrderItem =
  i_id :: js_string
  i_order_id :: js_string
  product_name :: js_string
  product_price :: real
  quantity :: real
  subtotal :: real
  created_at :: js_string
  updated_at :: js_string

record TrackingData =
  order :: Order
  trajectories :: "TrajectoryPoint list"
  orderItems :: "OrderItem list"

section \<open>The collaborators: store responses, channels, notifications\<close>

text \<open>
  A value that a \<open>throw\<close> can carry: an \<open>Error\<close> instance with its message, or a value
  for which \<open>instanceof Error\<close> is false. The error object of a store response is thrown
  as it is, so it has this type too.
\<close>

datatype thrown = ErrorInstance js_string | NotErrorInstance

text \<open>The \<open>{ data, error }\<close> object that a store call resolves to.\<close>

record 'a response =
  data :: "'a option"
  error :: "thrown option"

text \<open>What an \<open>await\<close> yields: the value the promise resolved to, or the rejection.\<close>

datatype 'a awaited = Resolved 'a | Rejected thrown

text \<open>
  A realtime channel: its handle and the order id that its topic and both of its filters
  are built from.
\<close>

record Channel =
  chan_handle :: nat
  chan_order :: js_string

datatype toast_type = Success | Error | Info | Warning

datatype console_entry =
  ConsoleLog toast_type js_string
  | ConsoleError js_string thrown

text \<open>The fetches of \<open>handleSearch\<close> that are in flight, each with what its continuation holds.\<close>

datatype in_flight =
  AwaitOrder js_string
  | AwaitSecondary Order

section \<open>The state of useOrderTracking\<close>

text \<open>
  The first five fields are the hook's own cells (\<open>useState\<close>, \<open>useRef\<close>);
  \<open>toastMessage\<close> tells whether the caller passed the optional callback. The others are
  the effects on the collaborators: the channels that are live in the realtime client
  and the next fresh handle, the toasts shown, the console lines, the clock in
  milliseconds with the due times of the timers set by \<open>setTimeout\<close>, and the fetches in
  flight. A setter call is recorded in its cell when it is made.
\<close>

record State =
  loading :: bool
  searched :: bool
  trackingData :: "TrackingData option"
  isUpdating :: bool
  subscriptionRef :: "Channel option"
  toastMessage :: bool
  channels :: "Channel list"
  next_handle :: nat
  toasts :: "(toast_type \<times> js_string) list"
  console :: "console_entry list"
  clock :: nat
  timers :: "nat list"
  fetches :: "in_flight list"

definition init :: "bool \<Rightarrow> State" where
  "init tm = \<lparr>loading = False, searched = False, trackingData = None, isUpdating = False,
     subscriptionRef = None, toastMessage = tm, channels = [], next_handle = 0,
     toasts = [], console = [], clock = 0, timers = [], fetches = []\<rparr>"

definition showMessage :: "toast_type \<Rightarrow> js_string \<Rightarrow> State \<Rightarrow> State" where
  "showMessage ty content st =
     (if toastMessage st then st\<lparr>toasts := toasts st @ [(ty, content)]\<rparr>
      else st\<lparr>console := console st @ [ConsoleLog ty content]\<rparr>)"

definition removeChannel :: "Channel \<Rightarrow> State \<Rightarrow> State" where
  "removeChannel c st = st\<lparr>channels := filter (\<lambda>x. x \<noteq> c) (channels st)\<rparr>"

definition setTimeout_clear :: "nat \<Rightarrow> State \<Rightarrow> State" where
  \<comment> \<open>\<open>setTimeout(() => setIsUpdating(false), delay)\<close>\<close>
  "setTimeout_clear delay st = st\<lparr>timers := timers st @ [clock st + delay]\<rparr>"

subsection \<open>The two handlers of the channel\<close>

definition on_order_update :: "Order \<Rightarrow> State \<Rightarrow> State" where
  "on_order_update payload_new st =
     setTimeout_clear 1500
       (st\<lparr>isUpdating := True,
           trackingData :=
             (case trackingData st of None \<Rightarrow> None
              | Some prev \<Rightarrow> Some (prev\<lparr>order := payload_new\<rparr>))\<rparr>)"

definition on_trajectory_insert :: "TrajectoryPoint \<Rightarrow> State \<Rightarrow> State" where
  "on_trajectory_insert newTrajectory st =
     setTimeout_clear 1500
       (showMessage Success MSG_NEW_TRAJECTORY
          (st\<lparr>isUpdating := True,
              trackingData :=
                (case trackingData st of None \<Rightarrow> None
                 | Some prev \<Rightarrow>
                     Some (prev\<lparr>trajectories := newTrajectory # trajectories prev\<rparr>))\<rparr>))"

subsection \<open>subscribeToOrderUpdates and the cleanups\<close>

definition subscribeToOrderUpdates :: "js_string \<Rightarrow> State \<Rightarrow> State" where
  "subscribeToOrderUpdates orderId st =
     (let st1 = (case subscriptionRef st of Some c \<Rightarrow> removeChannel c st | None \<Rightarrow> st);
          channel = \<lparr>chan_handle = next_handle st1, chan_order = orderId\<rparr>
      in st1\<lparr>channels := channels st1 @ [channel],
              next_handle := Suc (next_handle st1),
              subscriptionRef := Some channel\<rparr>)"

definition cleanupSubscription :: "State \<Rightarrow> State" where
  \<comment> \<open>also the body of the cleanup that the hook's effect returns\<close>
  "cleanupSubscription st =
     (case subscriptionRef st of Some c \<Rightarrow> removeChannel c st | None \<Rightarrow> st)"

subsection \<open>handleSearch\<close>

text \<open>
  \<open>handleSearch\<close> is an async function with two awaits, so it runs in three pieces: up
  to the lookup, from the lookup's result up to \<open>Promise.all\<close>, and from there to the end.
  Other callbacks may run between the pieces.
\<close>

definition handleSearch_catch :: "thrown \<Rightarrow> State \<Rightarrow> State" where
  "handleSearch_catch e st =
     showMessage Error (case e of ErrorInstance m \<Rightarrow> m | NotErrorInstance \<Rightarrow> MSG_QUERY_FAILED) st"

definition handleSearch_finally :: "State \<Rightarrow> State" where
  "handleSearch_finally st = st\<lparr>loading := False\<rparr>"

definition handleSearch_start :: "js_string \<Rightarrow> State \<Rightarrow> State" where
  "handleSearch_start orderNumber st =
     (if trim orderNumber = [] then st
      else st\<lparr>loading := True, searched := True, trackingData := None,
              fetches := fetches st @ [AwaitOrder (trim orderNumber)]\<rparr>)"

definition handleSearch_order ::
  "js_string \<Rightarrow> Order response awaited \<Rightarrow> State \<Rightarrow> State" where
  "handleSearch_order p_order_number res st0 =
     (let st = st0\<lparr>fetches := remove1 (AwaitOrder p_order_number) (fetches st0)\<rparr>
      in case res of
           Rejected e \<Rightarrow> handleSearch_finally (handleSearch_catch e st)
         | Resolved r \<Rightarrow>
             (case error r of
                Some orderError \<Rightarrow> handleSearch_finally (handleSearch_catch orderError st)
              | None \<Rightarrow>
                  (case data r of
                     None \<Rightarrow>
                       handleSearch_finally (handleSearch_catch (ErrorInstance MSG_NOT_FOUND) st)
                   | Some orderData \<Rightarrow>
                       st\<lparr>fetches := fetches st @ [AwaitSecondary orderData]\<rparr>)))"

definition handleSearch_secondary ::
  "Order \<Rightarrow> (TrajectoryPoint list response \<times> OrderItem list response) awaited \<Rightarrow>
   State \<Rightarrow> State" where
  "handleSearch_secondary orderData res st0 =
     (let st = st0\<lparr>fetches := remove1 (AwaitSecondary orderData) (fetches st0)\<rparr>
      in case res of
           Rejected e \<Rightarrow> handleSearch_finally (handleSearch_catch e st)
         | Resolved (trajectoryResult, itemsResult) \<Rightarrow>
             (let st1 = (case error trajectoryResult of
                           Some e \<Rightarrow>
                             st\<lparr>console := console st @ [ConsoleError MSG_TRAJECTORY_LOAD_FAILED e]\<rparr>
                         | None \<Rightarrow> st);
                  st2 = (case error itemsResult of
                           Some e \<Rightarrow>
                             st1\<lparr>console := console st1 @ [ConsoleError MSG_ITEMS_LOAD_FAILED e]\<rparr>
                         | None \<Rightarrow> st1);
                  st3 = st2\<lparr>trackingData := Some
                           \<lparr>order = orderData,
                            trajectories = (case data trajectoryResult of Some ts \<Rightarrow> ts | None \<Rightarrow> []),
                            orderItems = (case data itemsResult of Some its \<Rightarrow> its | None \<Rightarrow> [])\<rparr>\<rparr>
              in handleSearch_finally (subscribeToOrderUpdates (o_id orderData) st3)))"

subsection \<open>Timers\<close>

text \<open>
  Time passes to \<open>t\<close>: every timer that is due by then runs its callback
  \<open>setIsUpdating(false)\<close> and is gone. The hook never calls \<open>clearTimeout\<close>.
\<close>

definition advance :: "nat \<Rightarrow> State \<Rightarrow> State" where
  "advance t st =
     st\<lparr>clock := t,
        isUpdating := (if \<exists>d \<in> set (timers st). d \<le> t then False else isUpdating st),
        timers := filter (\<lambda>d. t < d) (timers st)\<rparr>"

subsection \<open>Executions\<close>

text \<open>
  The row that a change event carries (\<open>payload.new\<close>). The realtime service delivers
  an event to a channel only while the channel is live and the row passes the channel's
  filter: \<open>id=eq.orderId\<close> for an update of \<open>orders\<close>, \<open>order_id=eq.orderId\<close> for an
  insert into \<open>logistics_trajectories\<close>.
\<close>

datatype change = OrderUpdate Order | TrajectoryInsert TrajectoryPoint

fun passes_filter :: "Channel \<Rightarrow> change \<Rightarrow> bool" where
  "passes_filter c (OrderUpdate new) = (o_id new = chan_order c)"
| "passes_filter c (TrajectoryInsert new) = (t_order_id new = chan_order c)"

fun handle_change :: "change \<Rightarrow> State \<Rightarrow> State" where
  "handle_change (OrderUpdate new) st = on_order_update new st"
| "handle_change (TrajectoryInsert new) st = on_trajectory_insert new st"

text \<open>
  What can happen to the hook: the user searches, a fetch in flight settles, the change
  feed delivers a row, time passes, the view is unmounted (the effect's cleanup runs), or
  the page calls \<open>cleanupSubscription\<close>. \<open>step\<close> is \<open>None\<close> where the event cannot
  happen in the state.
\<close>

datatype event =
  Search js_string
  | OrderFetched js_string "Order response awaited"
  | SecondaryFetched Order "(TrajectoryPoint list response \<times> OrderItem list response) awaited"
  | Delivered Channel change
  | Tick nat
  | Unmount
  | CleanupCall

fun step :: "State \<Rightarrow> event \<Rightarrow> State option" where
  "step st (Search orderNumber) = Some (handleSearch_start orderNumber st)"
| "step st (OrderFetched n res) =
     (if AwaitOrder n \<in> set (fetches st) then Some (handleSearch_order n res st) else None)"
| "step st (SecondaryFetched orderData res) =
     (if AwaitSecondary orderData \<in> set (fetches st)
      then Some (handleSearch_secondary orderData res st) else None)"
| "step st (Delivered c ch) =
     (if c \<in> set (channels st) \<and> passes_filter c ch then Some (handle_change ch st) else None)"
| "step st (Tick t) = (if clock st \<le> t then Some (advance t st) else None)"
| "step st Unmount = Some (cleanupSubscription st)"
| "step st CleanupCall = Some (cleanupSubscription st)"

fun exec :: "State \<Rightarrow> event list \<Rightarrow> State option" where
  "exec st [] = Some st"
| "exec st (e # es) = (case step st e of None \<Rightarrow> None | Some st' \<Rightarrow> exec st' es)"

text \<open>
  One call of \<open>handleSearch\<close> run to its end with nothing in between: the lookup settles
  with \<open>res1\<close> and, when it found an order, \<open>Promise.all\<close> settles with \<open>res2\<close>.
\<close>

definition handleSearch ::
  "js_string \<Rightarrow> Order response awaited \<Rightarrow>
   (TrajectoryPoint list response \<times> OrderItem list response) awaited \<Rightarrow> State \<Rightarrow> State" where
  "handleSearch orderNumber res1 res2 st =
     (if trim orderNumber = [] then st
      else
        (let st1 = handleSearch_order (trim orderNumber) res1 (handleSearch_start orderNumber st)
         in case res1 of
              Resolved r \<Rightarrow>
                (case (error r, data r) of
                   (None, Some orderData) \<Rightarrow> handleSearch_secondary orderData res2 st1
                 | _ \<Rightarrow> st1)
            | Rejected e \<Rightarrow> st1))"

section \<open>The trajectory order\<close>

text \<open>Newest first: no point is older than a point after it.\<close>

definition newest_first :: "TrajectoryPoint list \<Rightarrow> bool" where
  "newest_first ts = sorted_wrt (\<lambda>a b. timestamp b \<le> timestamp a) ts"

section \<open>The page's own copy of the tracking code\<close>

text \<open>
  The first version of the page (index.tsx) carries the tracking code inline: the same
  \<open>subscribeToOrderUpdates\<close> and handlers, on a session without order items, with an
  info message in the UPDATE handler, and a \<open>handleSearch\<close> that fetches the
  trajectories alone after the order. The later version of the page calls the hook.
\<close>

definition MSG_ORDER_UPDATED :: js_string where
  \<comment> \<open>the info text of the page's UPDATE handler\<close>
  "MSG_ORDER_UPDATED = [0x8BA2, 0x5355, 0x72B6, 0x6001, 0x5DF2, 0x66F4, 0x65B0]"

definition MSG_LOGOUT_OK :: js_string where
  "MSG_LOGOUT_OK = [0x5DF2, 0x5B89, 0x5168, 0x9000, 0x51FA]"

definition MSG_LOGOUT_FAILED :: js_string where
  "MSG_LOGOUT_FAILED = [0x9000, 0x51FA, 0x5931, 0x8D25]"

definition MSG_LOGOUT_PREFIX :: js_string where
  \<comment> \<open>\<open>MSG_LOGOUT_FAILED\<close>, a colon and a space\<close>
  "MSG_LOGOUT_PREFIX = [0x9000, 0x51FA, 0x5931, 0x8D25, 0x3A, 0x20]"

text \<open>
  The state of the page, as that of the hook; the page shows its messages through the
  toolkit's \<open>message\<close> itself. Its \<open>user\<close> cell, which the tracking code never reads, is
  left out, and of \<open>handleLogout\<close> the sign-out is not split off as a step of its own:
  what follows it shows a message, clears the browser's storage and navigates away.
\<close>

record PageTrackingData =
  page_order :: Order
  page_trajectories :: "TrajectoryPoint list"

record PageState =
  p_loading :: bool
  p_searched :: bool
  p_trackingData :: "PageTrackingData option"
  p_isUpdating :: bool
  p_subscriptionRef :: "Channel option"
  p_channels :: "Channel list"
  p_next_handle :: nat
  p_messages :: "(toast_type \<times> js_string) list"
  p_console :: "console_entry list"
  p_clock :: nat
  p_timers :: "nat list"
  p_fetches :: "in_flight list"

definition page_init :: PageState where
  "page_init = \<lparr>p_loading = False, p_searched = False, p_trackingData = None,
     p_isUpdating = False, p_subscriptionRef = None, p_channels = [], p_next_handle = 0,
     p_messages = [], p_console = [], p_clock = 0, p_timers = [], p_fetches = []\<rparr>"

definition page_removeChannel :: "Channel \<Rightarrow> PageState \<Rightarrow> PageState" where
  "page_removeChannel c st = st\<lparr>p_channels := filter (\<lambda>x. x \<noteq> c) (p_channels st)\<rparr>"

definition page_on_order_update :: "Order \<Rightarrow> PageState \<Rightarrow> PageState" where
  "page_on_order_update payload_new st =
     st\<lparr>p_isUpdating := True,
        p_trackingData :=
          (case p_trackingData st of None \<Rightarrow> None
           | Some prev \<Rightarrow> Some (prev\<lparr>page_order := payload_new\<rparr>)),
        p_messages := p_messages st @ [(Info, MSG_ORDER_UPDATED)],
        p_timers := p_timers st @ [p_clock st + 1500]\<rparr>"

definition page_on_trajectory_insert :: "TrajectoryPoint \<Rightarrow> PageState \<Rightarrow> PageState" where
  "page_on_trajectory_insert newTrajectory st =
     st\<lparr>p_isUpdating := True,
        p_trackingData :=
          (case p_trackingData st of None \<Rightarrow> None
           | Some prev \<Rightarrow>
               Some (prev\<lparr>page_trajectories := newTrajectory # page_trajectories prev\<rparr>)),
        p_messages := p_messages st @ [(Success, MSG_NEW_TRAJECTORY)],
        p_timers := p_timers st @ [p_clock st + 1500]\<rparr>"

definition page_subscribeToOrderUpdates :: "js_string \<Rightarrow> PageState \<Rightarrow> PageState" where
  "page_subscribeToOrderUpdates orderId st =
     (let st1 = (case p_subscriptionRef st of Some c \<Rightarrow> page_removeChannel c st | None \<Rightarrow> st);
          channel = \<lparr>chan_handle = p_next_handle st1, chan_order = orderId\<rparr>
      in st1\<lparr>p_channels := p_channels st1 @ [channel],
              p_next_handle := Suc (p_next_handle st1),
              p_subscriptionRef := Some channel\<rparr>)"

definition page_cleanup :: "PageState \<Rightarrow> PageState" where
  \<comment> \<open>the cleanup of the page's effect\<close>
  "page_cleanup st =
     (case p_subscriptionRef st of Some c \<Rightarrow> page_removeChannel c st | None \<Rightarrow> st)"

definition page_handleLogout :: "thrown option \<Rightarrow> PageState \<Rightarrow> PageState" where
  \<comment> \<open>\<open>signOutError\<close>: what \<open>signOut\<close> reported or threw, if anything\<close>
  "page_handleLogout signOutError st0 =
     (let st = (case p_subscriptionRef st0 of Some c \<Rightarrow> page_removeChannel c st0 | None \<Rightarrow> st0)
      in case signOutError of
           None \<Rightarrow> st\<lparr>p_messages := p_messages st @ [(Success, MSG_LOGOUT_OK)]\<rparr>
         | Some e \<Rightarrow>
             st\<lparr>p_messages := p_messages st @
                  [(Error, MSG_LOGOUT_PREFIX @
                      (case e of ErrorInstance m \<Rightarrow> m | NotErrorInstance \<Rightarrow> MSG_LOGOUT_FAILED))]\<rparr>)"

definition page_catch_finally :: "thrown \<Rightarrow> PageState \<Rightarrow> PageState" where
  "page_catch_finally e st =
     st\<lparr>p_messages := p_messages st @
          [(Error, case e of ErrorInstance m \<Rightarrow> m | NotErrorInstance \<Rightarrow> MSG_QUERY_FAILED)],
        p_loading := False\<rparr>"

definition page_handleSearch_start :: "js_string \<Rightarrow> PageState \<Rightarrow> PageState" where
  "page_handleSearch_start orderNumber st =
     (if trim orderNumber = [] then st
      else st\<lparr>p_loading := True, p_searched := True, p_trackingData := None,
              p_fetches := p_fetches st @ [AwaitOrder (trim orderNumber)]\<rparr>)"

definition page_handleSearch_order ::
  "js_string \<Rightarrow> Order response awaited \<Rightarrow> PageState \<Rightarrow> PageState" where
  "page_handleSearch_order p_order_number res st0 =
     (let st = st0\<lparr>p_fetches := remove1 (AwaitOrder p_order_number) (p_fetches st0)\<rparr>
      in case res of
           Rejected e \<Rightarrow> page_catch_finally e st
         | Resolved r \<Rightarrow>
             (case error r of
                Some orderError \<Rightarrow> page_catch_finally orderError st
              | None \<Rightarrow>
                  (case data r of
                     None \<Rightarrow> page_catch_finally (ErrorInstance MSG_NOT_FOUND) st
                   | Some orderData \<Rightarrow>
                       st\<lparr>p_fetches := p_fetches st @ [AwaitSecondary orderData]\<rparr>)))"

definition page_handleSearch_trajectories ::
  "Order \<Rightarrow> TrajectoryPoint list response awaited \<Rightarrow> PageState \<Rightarrow> PageState" where
  "page_handleSearch_trajectories orderData res st0 =
     (let st = st0\<lparr>p_fetches := remove1 (AwaitSecondary orderData) (p_fetches st0)\<rparr>
      in case res of
           Rejected e \<Rightarrow> page_catch_finally e st
         | Resolved r \<Rightarrow>
             (let st1 = (case error r of
                           Some trajError \<Rightarrow>
                             st\<lparr>p_console := p_console st @
                                  [ConsoleError MSG_TRAJECTORY_LOAD_FAILED trajError]\<rparr>
                         | None \<Rightarrow> st);
                  st2 = st1\<lparr>p_trackingData := Some
                           \<lparr>page_order = orderData,
                            page_trajectories = (case data r of Some ts \<Rightarrow> ts | None \<Rightarrow> [])\<rparr>\<rparr>
              in (page_subscribeToOrderUpdates (o_id orderData) st2)\<lparr>p_loading := False\<rparr>))"

definition page_advance :: "nat \<Rightarrow> PageState \<Rightarrow> PageState" where
  "page_advance t st =
     st\<lparr>p_clock := t,
        p_isUpdating := (if \<exists>d \<in> set (p_timers st). d \<le> t then False else p_isUpdating st),
        p_timers := filter (\<lambda>d. t < d) (p_timers st)\<rparr>"

fun page_handle_change :: "change \<Rightarrow> PageState \<Rightarrow> PageState" where
  "page_handle_change (OrderUpdate new) st = page_on_order_update new st"
| "page_handle_change (TrajectoryInsert new) st = page_on_trajectory_insert new st"

datatype page_event =
  PSearch js_string
  | POrderFetched js_string "Order response awaited"
  | PTrajectoriesFetched Order "TrajectoryPoint list response awaited"
  | PDelivered Channel change
  | PTick nat
  | PUnmount
  | PLogout "thrown option"

fun page_step :: "PageState \<Rightarrow> page_event \<Rightarrow> PageState option" where
  "page_step st (PSearch orderNumber) = Some (page_handleSearch_start orderNumber st)"
| "page_step st (POrderFetched n res) =
     (if AwaitOrder n \<in> set (p_fetches st) then Some (page_handleSearch_order n res st) else None)"
| "page_step st (PTrajectoriesFetched orderData res) =
     (if AwaitSecondary orderData \<in> set (p_fetches st)
      then Some (page_handleSearch_trajectories orderData res st) else None)"
| "page_step st (PDelivered c ch) =
     (if c \<in> set (p_channels st) \<and> passes_filter c ch
      then Some (page_handle_change ch st) else None)"
| "page_step st (PTick t) = (if p_clock st \<le> t then Some (page_advance t st) else None)"
| "page_step st PUnmount = Some (page_cleanup st)"
| "page_step st (PLogout signOutError) = Some (page_handleLogout signOutError st)"

fun page_exec :: "PageState \<Rightarrow> page_event list \<Rightarrow> PageState option" where
  "page_exec st [] = Some st"
| "page_exec st (e # es) =
     (case page_step st e of None \<Rightarrow> None | Some st' \<Rightarrow> page_exec st' es)"

section \<open>The map component\<close>

text \<open>The texts of map.tsx, as code units.\<close>

definition MSG_MAP_CONFIG :: js_string where
  \<comment> \<open>"map configuration error: Key or Security Code missing"\<close>
  "MSG_MAP_CONFIG = [0x5730, 0x56FE, 0x914D, 0x7F6E, 0x9519, 0x8BEF, 0xFF1A, 0x7F3A, 0x5C11,
     0x20, 0x4B, 0x65, 0x79, 0x20, 0x6216, 0x20, 0x53, 0x65, 0x63, 0x75, 0x72, 0x69, 0x74, 0x79,
     0x20, 0x43, 0x6F, 0x64, 0x65]"

definition MSG_MAP_ERROR :: js_string where
  \<comment> \<open>"an error occurred while the map was loading"\<close>
  "MSG_MAP_ERROR = [0x5730, 0x56FE, 0x52A0, 0x8F7D, 0x53D1, 0x751F, 0x9519, 0x8BEF]"

definition MSG_MAP_CONNECT :: js_string where
  \<comment> \<open>"connection to the map service failed"\<close>
  "MSG_MAP_CONNECT = [0x5730, 0x56FE, 0x670D, 0x52A1, 0x8FDE, 0x63A5, 0x5931, 0x8D25]"

definition MSG_MAP_INIT_FAILED :: js_string where
  \<comment> \<open>the console text of the catch block\<close>
  "MSG_MAP_INIT_FAILED = [0x5730, 0x56FE, 0x521D, 0x59CB, 0x5316, 0x5931, 0x8D25, 0x3A]"

text \<open>
  An environment variable is absent or a string; JavaScript reads the absent one and the
  empty string as false.
\<close>

definition truthy :: "js_string option \<Rightarrow> bool" where
  "truthy v = (case v of None \<Rightarrow> False | Some s \<Rightarrow> s \<noteq> [])"

text \<open>
  One mount of the component. \<open>map_loading\<close> is the \<open>useState(true)\<close> cell that the
  overlay shows; \<open>destroyed\<close> and \<open>animationFrameId\<close> are the variables of the effect's
  closure; \<open>mapInstanceRef\<close> holds the handle of the map; \<open>container\<close> tells whether
  \<open>containerRef.current\<close> is set; \<open>loaderPromise\<close> tells whether the module's shared
  promise is set. The rest records the effects: the security configuration and the SDK
  stored on \<open>window\<close>, the errors shown through \<open>messageApi.error\<close>, the console lines,
  whether \<open>initMap\<close> is suspended at its \<open>await\<close>, the animation frames requested and
  not cancelled, the maps constructed and not destroyed, and whether a map with the two
  listeners of \<open>initMap\<close> has been constructed.
\<close>

record MapState =
  map_loading :: bool
  destroyed :: bool
  animationFrameId :: "nat option"
  mapInstanceRef :: "nat option"
  container :: bool
  loaderPromise :: bool
  securityConfig :: "js_string option"
  window_AMap :: bool
  message_errors :: "js_string list"
  map_console :: "console_entry list"
  awaiting_loader :: bool
  frames :: "nat list"
  next_frame :: nat
  live_maps :: "nat list"
  next_map :: nat
  listening :: bool

definition map_init :: "bool \<Rightarrow> MapState" where
  \<comment> \<open>the component before its effect runs; \<open>lp\<close>: an earlier mount has set the shared promise\<close>
  "map_init lp = \<lparr>map_loading = True, destroyed = False, animationFrameId = None,
     mapInstanceRef = None, container = True, loaderPromise = lp, securityConfig = None,
     window_AMap = False, message_errors = [], map_console = [], awaiting_loader = False,
     frames = [], next_frame = 1, live_maps = [], next_map = 0, listening = False\<rparr>"

definition initMap :: "js_string option \<Rightarrow> js_string option \<Rightarrow> MapState \<Rightarrow> MapState" where
  \<comment> \<open>\<open>initMap\<close> up to its \<open>await\<close>\<close>
  "initMap key securityCode st =
     (if \<not> truthy key \<or> \<not> truthy securityCode
      then (if \<not> destroyed st
            then st\<lparr>message_errors := message_errors st @ [MSG_MAP_CONFIG], map_loading := False\<rparr>
            else st)
      else st\<lparr>awaiting_loader := True\<rparr>)"

definition map_effect :: "js_string option \<Rightarrow> js_string option \<Rightarrow> MapState \<Rightarrow> MapState" where
  \<comment> \<open>the body of the effect, with \<open>key\<close> and \<open>securityCode\<close> read from the environment\<close>
  "map_effect key securityCode st =
     (let st1 = st\<lparr>destroyed := False, animationFrameId := None\<rparr>;
          st2 = (if truthy securityCode then st1\<lparr>securityConfig := securityCode\<rparr> else st1);
          st3 = (if \<not> loaderPromise st2 \<and> truthy key then st2\<lparr>loaderPromise := True\<rparr> else st2)
      in initMap key securityCode st3)"

definition initMap_loaded :: "unit awaited \<Rightarrow> MapState \<Rightarrow> MapState" where
  \<comment> \<open>\<open>initMap\<close> from the result of \<open>await loaderPromise\<close> on\<close>
  "initMap_loaded res st0 =
     (let st = st0\<lparr>awaiting_loader := False\<rparr>
      in case res of
           Rejected e \<Rightarrow>
             (let st1 = st\<lparr>map_console := map_console st @ [ConsoleError MSG_MAP_INIT_FAILED e]\<rparr>
              in if \<not> destroyed st1
                 then st1\<lparr>message_errors := message_errors st1 @ [MSG_MAP_CONNECT],
                          map_loading := False\<rparr>
                 else st1)
         | Resolved AMap \<Rightarrow>
             (if destroyed st \<or> \<not> container st then st
              else st\<lparr>animationFrameId := Some (next_frame st),
                      frames := frames st @ [next_frame st],
                      next_frame := Suc (next_frame st)\<rparr>))"

definition initMap_frame :: "nat \<Rightarrow> MapState \<Rightarrow> MapState" where
  \<comment> \<open>the callback given to \<open>requestAnimationFrame\<close>\<close>
  "initMap_frame f st0 =
     (let st = st0\<lparr>frames := filter (\<lambda>x. x \<noteq> f) (frames st0)\<rparr>
      in if destroyed st \<or> \<not> container st then st
         else
           (let st1 = (case mapInstanceRef st of
                         Some m \<Rightarrow> st\<lparr>live_maps := filter (\<lambda>x. x \<noteq> m) (live_maps st)\<rparr>
                       | None \<Rightarrow> st)
            in st1\<lparr>live_maps := live_maps st1 @ [next_map st1],
                    mapInstanceRef := Some (next_map st1),
                    next_map := Suc (next_map st1),
                    window_AMap := True,
                    listening := True\<rparr>))"

definition on_complete :: "MapState \<Rightarrow> MapState" where
  "on_complete st = (if \<not> destroyed st then st\<lparr>map_loading := False\<rparr> else st)"

definition on_error :: "MapState \<Rightarrow> MapState" where
  "on_error st =
     (if \<not> destroyed st
      then st\<lparr>message_errors := message_errors st @ [MSG_MAP_ERROR], map_loading := False\<rparr>
      else st)"

definition map_cleanup :: "MapState \<Rightarrow> MapState" where
  "map_cleanup st0 =
     (let st = st0\<lparr>destroyed := True\<rparr>;
          st1 = (case animationFrameId st of
                   None \<Rightarrow> st
                 | Some f \<Rightarrow> if f \<noteq> 0 then st\<lparr>frames := filter (\<lambda>x. x \<noteq> f) (frames st)\<rparr> else st)
      in case mapInstanceRef st1 of
           None \<Rightarrow> st1
         | Some m \<Rightarrow> st1\<lparr>live_maps := filter (\<lambda>x. x \<noteq> m) (live_maps st1), mapInstanceRef := None\<rparr>)"

text \<open>
  What can happen after the effect has run: the shared promise settles, a requested frame
  comes, the map emits \<open>complete\<close> or \<open>error\<close>, the effect's cleanup runs.
\<close>

datatype map_event =
  LoaderSettled "unit awaited"
  | Frame nat
  | MapComplete
  | MapErrorEvent
  | MapCleanup

fun map_step :: "MapState \<Rightarrow> map_event \<Rightarrow> MapState option" where
  "map_step st (LoaderSettled res) =
     (if awaiting_loader st then Some (initMap_loaded res st) else None)"
| "map_step st (Frame f) = (if f \<in> set (frames st) then Some (initMap_frame f st) else None)"
| "map_step st MapComplete = (if listening st then Some (on_complete st) else None)"
| "map_step st MapErrorEvent = (if listening st then Some (on_error st) else None)"
| "map_step st MapCleanup = Some (map_cleanup st)"

fun map_exec :: "MapState \<Rightarrow> map_event list \<Rightarrow> MapState option" where
  "map_exec st [] = Some st"
| "map_exec st (e # es) = (case map_step st e of None \<Rightarrow> None | Some st' \<Rightarrow> map_exec st' es)"

section \<open>Mounting the view again\<close>

text \<open>
  The realtime client is one object of the module \<open>@/lib/supabaseClient\<close>, shared by
  every mount of the view, while each mount has a hook instance of its own, with the
  initial values of its \<open>useState\<close> cells and a \<open>useRef(null)\<close>. \<open>remount\<close> is the
  state when the view is mounted again after an unmount: the cells are those of the new
  instance; the live channels and the handles of the client, the toasts and the console
  stay. The timers of the instance that is gone are dropped, since their callbacks set a
  cell of that instance. \<open>next_mount\<close> runs the events of the new mount; the model
  follows one instance at a time, so it takes the new mount up only when no fetch of the
  earlier one is in flight.
\<close>

definition remount :: "State \<Rightarrow> State" where
  "remount st = st\<lparr>loading := False, searched := False, trackingData := None,
     isUpdating := False, subscriptionRef := None, timers := []\<rparr>"

definition next_mount :: "State option \<Rightarrow> event list \<Rightarrow> State option" where
  "next_mount r evs =
     (case r of None \<Rightarrow> None
      | Some st \<Rightarrow> if fetches st = [] then exec (remount st) evs else None)"

definition page_remount :: "PageState \<Rightarrow> PageState" where
  "page_remount st = st\<lparr>p_loading := False, p_searched := False, p_trackingData := None,
     p_isUpdating := False, p_subscriptionRef := None, p_timers := []\<rparr>"

definition page_next_mount :: "PageState option \<Rightarrow> page_event list \<Rightarrow> PageState option" where
  "page_next_mount r evs =
     (case r of None \<Rightarrow> None
      | Some st \<Rightarrow> if p_fetches st = [] then page_exec (page_remount st) evs else None)"

text \<open>The events with which a call of \<open>handleSearch\<close> publishes a session.\<close>

fun publishes :: "event \<Rightarrow> bool" where
  "publishes (SecondaryFetched orderData (Resolved res)) = True"
| "publishes e = False"

section \<open>Sample data\<close>

definition sample_order :: Order where
  "sample_order = \<lparr>o_id = [0x41, 0x31], o_order_number = [0x4F, 0x52, 0x44, 0x31],
     o_status = [0x73, 0x68, 0x69, 0x70, 0x70, 0x69, 0x6E, 0x67]\<rparr>"

definition sample_order_delivered :: Order where
  "sample_order_delivered = sample_order\<lparr>o_status := [0x64, 0x65, 0x6C, 0x69, 0x76, 0x65, 0x72, 0x65, 0x64]\<rparr>"

definition sample_point :: "nat \<Rightarrow> TrajectoryPoint" where
  \<comment> \<open>a point of the sample order with the given timestamp\<close>
  "sample_point ts = \<lparr>t_id = [0x54], t_order_id = [0x41, 0x31],
     t_status = [0x70, 0x69, 0x63, 0x6B, 0x75, 0x70], description = [], timestamp = ts\<rparr>"

definition sample_item :: OrderItem where
  "sample_item = \<lparr>i_id = [0x49], i_order_id = [0x41, 0x31], product_name = [0x50],
     product_price = 5, quantity = 2, subtotal = 10, created_at = [], updated_at = []\<rparr>"

definition sample_session :: TrackingData where
  "sample_session = \<lparr>order = sample_order, trajectories = [sample_point 20, sample_point 10],
     orderItems = [sample_item]\<rparr>"

definition sample_channel :: Channel where
  "sample_channel = \<lparr>chan_handle = 0, chan_order = [0x41, 0x31]\<rparr>"

definition sample_state :: State where
  \<comment> \<open>the state after a search has found the sample order\<close>
  "sample_state = (init True)\<lparr>searched := True, trackingData := Some sample_session,
     subscriptionRef := Some sample_channel, channels := [sample_channel], next_handle := 1\<rparr>"

definition found :: "'a \<Rightarrow> 'a response" where
  "found x = \<lparr>data = Some x, error = None\<rparr>"

definition no_row :: "'a response" where
  "no_row = \<lparr>data = None, error = None\<rparr>"

definition failure :: "thrown \<Rightarrow> 'a response" where
  "failure e = \<lparr>data = None, error = Some e\<rparr>"

text \<open>A response is a failure when it carries an error; the client then gives no data.\<close>

definition failed :: "'a response \<Rightarrow> bool" where
  "failed r \<longleftrightarrow> error r \<noteq> None \<and> data r = None"

definition sample_order_b :: Order where
  "sample_order_b = \<lparr>o_id = [0x42, 0x32], o_order_number = [0x4F, 0x52, 0x44, 0x32],
     o_status = [0x70, 0x65, 0x6E, 0x64, 0x69, 0x6E, 0x67]\<rparr>"

text \<open>Two searches one after the other, the second with a leading space and a failed item fetch.\<close>

definition two_searches :: "event list" where
  "two_searches =
     [Search [0x4F, 0x52, 0x44, 0x31],
      OrderFetched [0x4F, 0x52, 0x44, 0x31] (Resolved (found sample_order)),
      SecondaryFetched sample_order
        (Resolved (found [sample_point 20, sample_point 10], found [sample_item])),
      Search [0x20, 0x4F, 0x52, 0x44, 0x32],
      OrderFetched [0x4F, 0x52, 0x44, 0x32] (Resolved (found sample_order_b)),
      SecondaryFetched sample_order_b (Resolved (found [], failure NotErrorInstance))]"

text \<open>A search, the unmount while its lookup is in flight, and then the fetches' results.\<close>

definition unmount_mid_fetch :: "event list" where
  "unmount_mid_fetch =
     [Search [0x4F, 0x52, 0x44, 0x31],
      Unmount,
      OrderFetched [0x4F, 0x52, 0x44, 0x31] (Resolved (found sample_order)),
      SecondaryFetched sample_order
        (Resolved (found [sample_point 20, sample_point 10], found [sample_item]))]"

text \<open>Two change events one second apart, and the clock half a second later.\<close>

definition rapid_events :: "event list" where
  "rapid_events =
     [Delivered sample_channel (OrderUpdate sample_order_delivered),
      Tick 1000,
      Delivered sample_channel (TrajectoryInsert (sample_point 30)),
      Tick 1500]"

text \<open>A search in a later mount.\<close>

definition second_search :: "event list" where
  "second_search =
     [Search [0x4F, 0x52, 0x44, 0x32],
      OrderFetched [0x4F, 0x52, 0x44, 0x32] (Resolved (found sample_order_b)),
      SecondaryFetched sample_order_b (Resolved (found [], found []))]"

text \<open>The same two runs on the page's own copy.\<close>

definition page_unmount_mid_fetch :: "page_event list" where
  "page_unmount_mid_fetch =
     [PSearch [0x4F, 0x52, 0x44, 0x31],
      PUnmount,
      POrderFetched [0x4F, 0x52, 0x44, 0x31] (Resolved (found sample_order)),
      PTrajectoriesFetched sample_order (Resolved (found [sample_point 20, sample_point 10]))]"

definition page_second_search :: "page_event list" where
  "page_second_search =
     [PSearch [0x4F, 0x52, 0x44, 0x32],
      POrderFetched [0x4F, 0x52, 0x44, 0x32] (Resolved (found sample_order_b)),
      PTrajectoriesFetched sample_order_b (Resolved (found []))]"

text \<open>
  Two searches that overlap: the first, for an unknown number, gets its result after the
  second has found its order and published it.
\<close>

definition overlapping_searches :: "event list" where
  "overlapping_searches =
     [Search [0x58, 0x39],
      Search [0x4F, 0x52, 0x44, 0x31],
      OrderFetched [0x4F, 0x52, 0x44, 0x31] (Resolved (found sample_order)),
      SecondaryFetched sample_order
        (Resolved (found [sample_point 20, sample_point 10], found [sample_item])),
      OrderFetched [0x58, 0x39] (Resolved no_row)]"

section \<open>Invariants\<close>

text \<open>The invariant of the subscription: a live channel is the one the ref holds.\<close>

definition held_only :: "State \<Rightarrow> bool" where
  "held_only st \<longleftrightarrow>
     (case channels st of [] \<Rightarrow> True | [c] \<Rightarrow> subscriptionRef st = Some c | _ \<Rightarrow> False)"

definition page_held_only :: "PageState \<Rightarrow> bool" where
  "page_held_only st \<longleftrightarrow>
     (case p_channels st of [] \<Rightarrow> True | [c] \<Rightarrow> p_subscriptionRef st = Some c | _ \<Rightarrow> False)"

text \<open>
  The overlay is opaque while \<open>loading\<close> is true, and it is on the screen only until
  the view is torn down.
\<close>

definition overlay_shown :: "MapState \<Rightarrow> bool" where
  "overlay_shown st \<longleftrightarrow> map_loading st \<and> \<not> destroyed st"

text \<open>A mount of the map component with nothing left to happen but its cleanup.\<close>

definition idle :: "MapState \<Rightarrow> bool" where
  "idle st \<longleftrightarrow> \<not> awaiting_loader st \<and> frames st = [] \<and> \<not> listening st"

section \<open>Lemmas on the definitions\<close>

lemmas handler_defs =
  on_order_update_def on_trajectory_insert_def setTimeout_clear_def showMessage_def

lemmas search_defs =
  handleSearch_def handleSearch_start_def handleSearch_order_def handleSearch_secondary_def
  handleSearch_catch_def handleSearch_finally_def subscribeToOrderUpdates_def
  removeChannel_def showMessage_def

lemmas sample_defs =
  sample_order_def sample_order_b_def sample_order_delivered_def sample_point_def
  sample_item_def sample_session_def sample_channel_def sample_state_def
  found_def no_row_def failure_def init_def

lemmas run_defs =
  handleSearch_start_def handleSearch_order_def handleSearch_secondary_def
  handleSearch_catch_def handleSearch_finally_def subscribeToOrderUpdates_def
  cleanupSubscription_def removeChannel_def showMessage_def on_order_update_def
  on_trajectory_insert_def setTimeout_clear_def advance_def trim_def isWhiteSpace_def Let_def

lemmas map_defs =
  map_effect_def initMap_def initMap_loaded_def initMap_frame_def on_complete_def on_error_def
  map_cleanup_def

lemmas page_defs =
  page_removeChannel_def page_on_order_update_def page_on_trajectory_insert_def
  page_subscribeToOrderUpdates_def page_cleanup_def page_handleLogout_def
  page_catch_finally_def page_handleSearch_start_def page_handleSearch_order_def
  page_handleSearch_trajectories_def page_advance_def

lemma trim_empty_iff: "trim s = [] \<longleftrightarrow> (\<forall>c \<in> set s. isWhiteSpace c)"
proof -
  have drop: "(\<forall>x \<in> set (dropWhile P xs). P x) \<longleftrightarrow> (\<forall>x \<in> set xs. P x)"
    for P :: "16 word \<Rightarrow> bool" and xs
    by (induction xs) auto
  show ?thesis
    by (simp add: trim_def drop)
qed

lemma texts_differ: "MSG_NOT_FOUND \<noteq> MSG_QUERY_FAILED"
  by (simp add: MSG_NOT_FOUND_def MSG_QUERY_FAILED_def)

subsection \<open>The subscription invariant of the hook\<close>

lemma held_only_cases:
  "held_only st \<longleftrightarrow>
     channels st = [] \<or> (\<exists>c. channels st = [c] \<and> subscriptionRef st = Some c)"
  by (auto simp: held_only_def split: list.splits)

lemma held_only_init: "held_only (init tm)"
  by (simp add: held_only_def init_def)

lemma held_only_length: "held_only st \<Longrightarrow> length (channels st) \<le> 1"
  by (auto simp: held_only_cases)

lemma held_only_cong:
  "channels st' = channels st \<Longrightarrow> subscriptionRef st' = subscriptionRef st \<Longrightarrow>
   held_only st' = held_only st"
  by (simp add: held_only_cases)

lemma channels_cleanup: "held_only st \<Longrightarrow> channels (cleanupSubscription st) = []"
  by (auto simp: held_only_cases cleanupSubscription_def removeChannel_def split: option.splits)

lemma channels_subscribe:
  "held_only st \<Longrightarrow>
   channels (subscribeToOrderUpdates orderId st)
     = [\<lparr>chan_handle = next_handle st, chan_order = orderId\<rparr>]"
  by (auto simp: held_only_cases subscribeToOrderUpdates_def removeChannel_def Let_def
      split: option.splits)

lemma ref_subscribe:
  "subscriptionRef (subscribeToOrderUpdates orderId st)
     = Some \<lparr>chan_handle = next_handle st, chan_order = orderId\<rparr>"
  by (simp add: subscribeToOrderUpdates_def removeChannel_def Let_def split: option.splits)

lemma channels_secondary:
  "held_only st \<Longrightarrow>
   channels (handleSearch_secondary orderData (Resolved (tr, ir)) st)
     = [\<lparr>chan_handle = next_handle st, chan_order = o_id orderData\<rparr>]"
  by (auto simp: held_only_cases handleSearch_secondary_def handleSearch_finally_def
      subscribeToOrderUpdates_def removeChannel_def Let_def split: option.splits)

lemma ref_secondary:
  "subscriptionRef (handleSearch_secondary orderData (Resolved (tr, ir)) st)
     = Some \<lparr>chan_handle = next_handle st, chan_order = o_id orderData\<rparr>"
  by (auto simp: handleSearch_secondary_def handleSearch_finally_def
      subscribeToOrderUpdates_def removeChannel_def Let_def split: option.splits)

lemma held_only_cleanup: "held_only st \<Longrightarrow> held_only (cleanupSubscription st)"
  by (simp add: held_only_cases channels_cleanup)

lemma held_only_start: "held_only (handleSearch_start n st) = held_only st"
  by (rule held_only_cong) (simp_all add: handleSearch_start_def)

lemma held_only_order: "held_only (handleSearch_order n res st) = held_only st"
  by (rule held_only_cong)
    (simp_all add: handleSearch_order_def handleSearch_catch_def handleSearch_finally_def
      showMessage_def Let_def split: awaited.splits option.splits)

lemma held_only_secondary:
  "held_only st \<Longrightarrow> held_only (handleSearch_secondary orderData res st)"
proof (cases res)
  case (Rejected e)
  have "held_only (handleSearch_secondary orderData res st) = held_only st"
    by (rule held_only_cong)
      (simp_all add: Rejected handleSearch_secondary_def handleSearch_catch_def
        handleSearch_finally_def showMessage_def Let_def)
  then show "held_only st \<Longrightarrow> ?thesis" by simp
next
  case (Resolved p)
  obtain tr ir where p: "p = (tr, ir)" by (cases p)
  assume "held_only st"
  then show ?thesis
    unfolding Resolved p by (simp add: held_only_cases channels_secondary ref_secondary)
qed

lemma held_only_change: "held_only (handle_change ch st) = held_only st"
  by (rule held_only_cong) (cases ch; simp add: handler_defs)+

lemma held_only_advance: "held_only (advance t st) = held_only st"
  by (rule held_only_cong) (simp_all add: advance_def)

lemma held_only_step: "held_only st \<Longrightarrow> step st e = Some st' \<Longrightarrow> held_only st'"
  by (cases e)
    (auto simp: held_only_start held_only_order held_only_secondary held_only_change
      held_only_advance held_only_cleanup split: if_splits)

lemma held_only_exec: "held_only st \<Longrightarrow> exec st evs = Some st' \<Longrightarrow> held_only st'"
proof (induction evs arbitrary: st)
  case Nil
  then show ?case by simp
next
  case (Cons e evs)
  then show ?case by (auto split: option.splits dest: held_only_step)
qed

lemma two_searches_run:
  "\<exists>st. exec (init True) two_searches = Some st \<and> next_handle st = 2 \<and>
     channels st = [\<lparr>chan_handle = 1, chan_order = [0x42, 0x32]\<rparr>] \<and>
     trackingData st = Some \<lparr>order = sample_order_b, trajectories = [], orderItems = []\<rparr>"
  by (simp add: two_searches_def sample_defs run_defs)

subsection \<open>The map component\<close>

lemma map_loading_step:
  "\<not> map_loading st \<Longrightarrow> map_step st e = Some st' \<Longrightarrow> \<not> map_loading st'"
  by (cases e) (auto simp: map_defs Let_def split: if_splits awaited.splits option.splits)

lemma map_loading_exec:
  "\<not> map_loading st \<Longrightarrow> map_exec st evs = Some st' \<Longrightarrow> \<not> map_loading st'"
proof (induction evs arbitrary: st)
  case Nil
  then show ?case by simp
next
  case (Cons e evs)
  then show ?case by (auto split: option.splits dest: map_loading_step)
qed

lemma idle_step:
  "idle st \<Longrightarrow> map_step st e = Some st' \<Longrightarrow>
   idle st' \<and> message_errors st' = message_errors st"
  by (cases e) (auto simp: idle_def map_cleanup_def Let_def split: if_splits option.splits)

lemma idle_exec:
  "idle st \<Longrightarrow> map_exec st evs = Some st' \<Longrightarrow> message_errors st' = message_errors st"
proof (induction evs arbitrary: st)
  case Nil
  then show ?case by simp
next
  case (Cons e evs)
  then show ?case by (auto split: option.splits dest: idle_step)
qed

lemma overlay_step:
  "\<not> overlay_shown st \<Longrightarrow> map_step st e = Some st' \<Longrightarrow> \<not> overlay_shown st'"
  by (cases e)
    (auto simp: overlay_shown_def map_defs Let_def split: if_splits awaited.splits option.splits)

lemma overlay_exec:
  "\<not> overlay_shown st \<Longrightarrow> map_exec st evs = Some st' \<Longrightarrow> \<not> overlay_shown st'"
proof (induction evs arbitrary: st)
  case Nil
  then show ?case by simp
next
  case (Cons e evs)
  then show ?case by (auto split: option.splits dest: overlay_step)
qed

lemma overlay_error:
  "map_step st ev = Some st1 \<Longrightarrow> ev = MapErrorEvent \<or> ev = LoaderSettled (Rejected e) \<Longrightarrow>
   \<not> overlay_shown st1"
  by (auto simp: overlay_shown_def initMap_loaded_def on_error_def Let_def split: if_splits)

subsection \<open>What an execution keeps\<close>

lemma searched_step: "searched st \<Longrightarrow> step st e = Some st' \<Longrightarrow> searched st'"
proof (cases e)
  case (Delivered c ch)
  then show "searched st \<Longrightarrow> step st e = Some st' \<Longrightarrow> ?thesis"
    by (cases ch) (auto simp: run_defs split: if_splits)
qed (auto simp: run_defs split: if_splits awaited.splits option.splits)

lemma searched_exec: "searched st \<Longrightarrow> exec st evs = Some st' \<Longrightarrow> searched st'"
proof (induction evs arbitrary: st)
  case Nil
  then show ?case by simp
next
  case (Cons e evs)
  then show ?case by (auto split: option.splits dest: searched_step)
qed

lemma no_session_step:
  "trackingData st = None \<Longrightarrow> \<not> publishes e \<Longrightarrow> step st e = Some st' \<Longrightarrow>
   trackingData st' = None"
proof (cases e)
  case (SecondaryFetched orderData res)
  then show "trackingData st = None \<Longrightarrow> \<not> publishes e \<Longrightarrow> step st e = Some st' \<Longrightarrow> ?thesis"
    by (cases res) (auto simp: run_defs split: if_splits)
next
  case (Delivered c ch)
  then show "trackingData st = None \<Longrightarrow> \<not> publishes e \<Longrightarrow> step st e = Some st' \<Longrightarrow> ?thesis"
    by (cases ch) (auto simp: run_defs split: if_splits)
qed (auto simp: run_defs split: if_splits awaited.splits option.splits)

lemma no_session_exec:
  "trackingData st = None \<Longrightarrow> \<forall>e \<in> set evs. \<not> publishes e \<Longrightarrow> exec st evs = Some st' \<Longrightarrow>
   trackingData st' = None"
proof (induction evs arbitrary: st)
  case Nil
  then show ?case by simp
next
  case (Cons e evs)
  then show ?case by (auto split: option.splits dest: no_session_step)
qed

section \<open>The change handlers\<close>

text \<open>
  C5. An order-updated event delivered to an active session replaces the session's order
  by the event's record; the session's trajectories and its order items are the same
  lists as before.
\<close>

theorem order_update_frame:
  "trackingData st = Some prev \<Longrightarrow>
   \<exists>next. trackingData (on_order_update new st) = Some next \<and> order next = new \<and>
     trajectories next = trajectories prev \<and> orderItems next = orderItems prev"
  by (simp add: on_order_update_def setTimeout_clear_def)

theorem order_update_frame_witness:
  "trackingData sample_state = Some sample_session \<and>
   (\<exists>next. trackingData (on_order_update sample_order_delivered sample_state) = Some next \<and>
      order next = sample_order_delivered \<and>
      trajectories next = [sample_point 20, sample_point 10] \<and> orderItems next = [sample_item])"
  using order_update_frame [of sample_state sample_session sample_order_delivered]
  by (simp add: sample_state_def sample_session_def)

text \<open>
  C10. While no session is active (\<open>trackingData\<close> is null), an order-updated or a
  trajectory-inserted event leaves \<open>trackingData\<close> null: no session is built from an
  event alone.
\<close>

theorem no_session_from_event:
  "trackingData st = None \<Longrightarrow>
   trackingData (on_order_update new st) = None \<and>
   trackingData (on_trajectory_insert newTrajectory st) = None"
  by (simp add: handler_defs)

theorem no_session_from_event_witness:
  "trackingData (init True) = None \<and>
   trackingData (on_order_update sample_order (init True)) = None \<and>
   trackingData (on_trajectory_insert (sample_point 5) (init True)) = None"
  using no_session_from_event [of "init True" sample_order "sample_point 5"]
  by (simp add: init_def)

text \<open>The page's copy of the handlers has the same guard.\<close>

lemma page_no_session_from_event:
  "p_trackingData st = None \<Longrightarrow> p_trackingData (page_handle_change ch st) = None"
  by (cases ch) (simp_all add: page_on_order_update_def page_on_trajectory_insert_def)

text \<open>
  C2, as amended. A trajectory-inserted event delivered to an active session puts the new
  point in front of the previous list and changes nothing else of the session: the list
  is one longer and the new point is at index 0. The handler does not sort. The result is
  newest first exactly when the previous list was and no previous point is more recent
  than the new one.
\<close>

theorem trajectory_insert_prepends:
  "trackingData st = Some prev \<Longrightarrow>
   \<exists>next. trackingData (on_trajectory_insert new st) = Some next \<and>
     trajectories next = new # trajectories prev \<and>
     length (trajectories next) = length (trajectories prev) + 1 \<and>
     trajectories next ! 0 = new \<and>
     order next = order prev \<and> orderItems next = orderItems prev \<and>
     (newest_first (trajectories next) \<longleftrightarrow>
        newest_first (trajectories prev) \<and>
        (\<forall>p \<in> set (trajectories prev). timestamp p \<le> timestamp new))"
  by (auto simp: handler_defs newest_first_def)

theorem trajectory_insert_prepends_witness:
  "trackingData sample_state = Some sample_session \<and>
   (\<exists>next. trackingData (on_trajectory_insert (sample_point 30) sample_state) = Some next \<and>
     trajectories next = [sample_point 30, sample_point 20, sample_point 10] \<and>
     length (trajectories next) = 3 \<and> trajectories next ! 0 = sample_point 30 \<and>
     newest_first (trajectories next))"
  using trajectory_insert_prepends [of sample_state sample_session "sample_point 30"]
  by (auto simp: sample_state_def sample_session_def sample_point_def newest_first_def)

text \<open>
  C2, as stated, fails when the feed delivers a point older than the head of the list: the
  session holds the points of times 20 and 10, newest first; the point of time 5 arrives
  and is put in front, and the list 5, 20, 10 is not newest first.
\<close>

theorem trajectory_insert_unsorted:
  "trackingData (on_trajectory_insert (sample_point 5) sample_state)
     = Some (sample_session\<lparr>trajectories := [sample_point 5, sample_point 20, sample_point 10]\<rparr>) \<and>
   newest_first (trajectories sample_session) \<and>
   \<not> newest_first [sample_point 5, sample_point 20, sample_point 10]"
  by (simp add: handler_defs sample_state_def sample_session_def init_def newest_first_def
      sample_point_def)

text \<open>The page's copy of the INSERT handler prepends in the same way.\<close>

lemma page_trajectory_insert_prepends:
  "p_trackingData st = Some prev \<Longrightarrow>
   p_trackingData (page_on_trajectory_insert new st)
     = Some (prev\<lparr>page_trajectories := new # page_trajectories prev\<rparr>)"
  by (simp add: page_on_trajectory_insert_def)

section \<open>The indicator and its timers\<close>

text \<open>
  C4, as amended. Every order-updated or trajectory-inserted event sets the indicator and
  sets a timer of its own, due 1.5 seconds later; the handler returns at once (the clock
  does not move in it), a live channel takes the next event whatever timers are pending,
  and no timer is ever cancelled. When time passes, the indicator is cleared as soon as
  any pending timer is due: it stays set exactly as long as it was set and none is due.
  So the indicator is cleared 1.5 seconds after the event whose timer is the earliest one
  pending, which is not the most recent event when events follow each other within 1.5
  seconds.
\<close>

theorem indicator_timers:
  "isUpdating (handle_change ch st) \<and>
   timers (handle_change ch st) = timers st @ [clock st + 1500] \<and>
   clock (handle_change ch st) = clock st \<and>
   (c \<in> set (channels st) \<and> passes_filter c ch \<longrightarrow>
      step st (Delivered c ch) = Some (handle_change ch st)) \<and>
   (isUpdating (advance t st) \<longleftrightarrow> isUpdating st \<and> (\<forall>d \<in> set (timers st). t < d)) \<and>
   timers (advance t st) = filter (\<lambda>d. t < d) (timers st) \<and>
   clock (advance t st) = t"
proof -
  have "isUpdating (advance t st) \<longleftrightarrow> isUpdating st \<and> (\<forall>d \<in> set (timers st). t < d)"
    by (auto simp: advance_def not_less)
  then show ?thesis
    by (cases ch) (simp_all add: handler_defs advance_def)
qed

theorem indicator_timers_witness:
  "isUpdating (handle_change (OrderUpdate sample_order_delivered) sample_state) \<and>
   timers (handle_change (OrderUpdate sample_order_delivered) sample_state) = [1500] \<and>
   step sample_state (Delivered sample_channel (OrderUpdate sample_order_delivered))
     = Some (handle_change (OrderUpdate sample_order_delivered) sample_state) \<and>
   isUpdating (advance 1499 (handle_change (OrderUpdate sample_order_delivered) sample_state)) \<and>
   \<not> isUpdating (advance 1500 (handle_change (OrderUpdate sample_order_delivered) sample_state))"
  using indicator_timers [of "OrderUpdate sample_order_delivered" sample_state sample_channel]
    indicator_timers [of _ "handle_change (OrderUpdate sample_order_delivered) sample_state" _ 1499]
    indicator_timers [of _ "handle_change (OrderUpdate sample_order_delivered) sample_state" _ 1500]
  by (simp add: sample_state_def init_def sample_channel_def sample_order_delivered_def
      sample_order_def)

text \<open>
  C4, as stated, fails for two events less than 1.5 seconds apart. An order update comes
  at time 0 and a trajectory insert at time 1000, when the indicator is set. At time
  1500 the timer of the first event fires and clears the indicator, 500 milliseconds
  after the most recent event, whose own timer (due at 2500) is still pending.
\<close>

theorem rapid_events_clear_early:
  "map_option isUpdating (exec sample_state (take 3 rapid_events)) = Some True \<and>
   map_option clock (exec sample_state (take 3 rapid_events)) = Some 1000 \<and>
   map_option isUpdating (exec sample_state rapid_events) = Some False \<and>
   map_option clock (exec sample_state rapid_events) = Some 1500 \<and>
   map_option timers (exec sample_state rapid_events) = Some [2500]"
  by (simp add: rapid_events_def sample_defs run_defs)

section \<open>The subscription\<close>

text \<open>
  C1. At every point of an execution at most one change-subscription should be live in
  the client. The code does otherwise, by the defect that C3 is about. The user searches
  and the view is unmounted while the lookup is in flight; the fetches resolve, and the
  continuation leaves a channel live that no cleanup is left to remove. The view is
  mounted again: the ref of the new instance is null, so the next successful search
  removes nothing and adds a second live channel to the one that leaked. The page's own
  copy of the code does the same.
\<close>

theorem remount_after_leak_two_subscriptions:
  "map_option channels (exec (init True) unmount_mid_fetch) = Some [sample_channel] \<and>
   map_option fetches (exec (init True) unmount_mid_fetch) = Some [] \<and>
   map_option channels (next_mount (exec (init True) unmount_mid_fetch) [])
     = Some [sample_channel] \<and>
   map_option subscriptionRef (next_mount (exec (init True) unmount_mid_fetch) []) = Some None \<and>
   map_option channels (next_mount (exec (init True) unmount_mid_fetch) second_search)
     = Some [sample_channel, \<lparr>chan_handle = 1, chan_order = [0x42, 0x32]\<rparr>] \<and>
   map_option p_channels (page_next_mount (page_exec page_init page_unmount_mid_fetch) page_second_search)
     = Some [sample_channel, \<lparr>chan_handle = 1, chan_order = [0x42, 0x32]\<rparr>]"
  by (simp add: unmount_mid_fetch_def second_search_def page_unmount_mid_fetch_def
      page_second_search_def next_mount_def remount_def page_next_mount_def page_remount_def
      page_init_def page_defs sample_defs run_defs)

text \<open>
  Within one mount that starts on a client with no live channel, at most one channel is
  live in every state that the hook can reach, whatever the searches, fetch results,
  change events, timers and cleanups that led there. \<open>subscribeToOrderUpdates\<close>, which
  every successful search ends with, first removes the channel that the ref holds and
  then creates and stores the new one: there it leaves the new channel as the only live
  one.
\<close>

lemma one_mount_at_most_one_subscription:
  assumes "exec (init tm) evs = Some st"
  shows "length (channels st) \<le> 1 \<and>
    channels (subscribeToOrderUpdates orderId st)
      = [\<lparr>chan_handle = next_handle st, chan_order = orderId\<rparr>] \<and>
    subscriptionRef (subscribeToOrderUpdates orderId st)
      = Some \<lparr>chan_handle = next_handle st, chan_order = orderId\<rparr> \<and>
    channels (handleSearch_secondary orderData (Resolved (trajectoryResult, itemsResult)) st)
      = [\<lparr>chan_handle = next_handle st, chan_order = o_id orderData\<rparr>] \<and>
    channels (subscribeToOrderUpdates orderId st0)
      = (case subscriptionRef st0 of None \<Rightarrow> channels st0
         | Some c \<Rightarrow> filter (\<lambda>x. x \<noteq> c) (channels st0))
        @ [\<lparr>chan_handle = next_handle st0, chan_order = orderId\<rparr>]"
proof -
  have h: "held_only st"
    using held_only_exec [OF held_only_init assms] .
  have "channels (subscribeToOrderUpdates orderId st0)
      = (case subscriptionRef st0 of None \<Rightarrow> channels st0
         | Some c \<Rightarrow> filter (\<lambda>x. x \<noteq> c) (channels st0))
        @ [\<lparr>chan_handle = next_handle st0, chan_order = orderId\<rparr>]"
    by (simp add: subscribeToOrderUpdates_def removeChannel_def Let_def split: option.splits)
  with h held_only_length [OF h] show ?thesis
    by (simp add: channels_subscribe ref_subscribe channels_secondary)
qed

lemma one_mount_at_most_one_subscription_example:
  "map_option channels (exec (init True) two_searches)
     = Some [\<lparr>chan_handle = 1, chan_order = [0x42, 0x32]\<rparr>] \<and>
   map_option (\<lambda>st. length (channels st) \<le> 1) (exec (init True) two_searches) = Some True"
proof -
  obtain st where e: "exec (init True) two_searches = Some st"
    and c: "channels st = [\<lparr>chan_handle = 1, chan_order = [0x42, 0x32]\<rparr>]"
    using two_searches_run by blast
  from one_mount_at_most_one_subscription [OF e] have "length (channels st) \<le> 1" by simp
  with e c show ?thesis by simp
qed

text \<open>The page's copy keeps the same invariant within one mount, its logout included.\<close>

lemma page_held_only_cases:
  "page_held_only st \<longleftrightarrow>
     p_channels st = [] \<or> (\<exists>c. p_channels st = [c] \<and> p_subscriptionRef st = Some c)"
  by (auto simp: page_held_only_def split: list.splits)

lemma page_held_only_step:
  "page_held_only st \<Longrightarrow> page_step st e = Some st' \<Longrightarrow> page_held_only st'"
proof (cases e)
  case (PDelivered c ch)
  then show "page_held_only st \<Longrightarrow> page_step st e = Some st' \<Longrightarrow> ?thesis"
    by (cases ch) (auto simp: page_held_only_cases page_defs split: if_splits)
qed (auto simp: page_held_only_cases page_defs Let_def
    split: if_splits option.splits awaited.splits)

lemma page_held_only_exec:
  "page_held_only st \<Longrightarrow> page_exec st evs = Some st' \<Longrightarrow> page_held_only st'"
proof (induction evs arbitrary: st)
  case Nil
  then show ?case by simp
next
  case (Cons e evs)
  then show ?case by (auto split: option.splits dest: page_held_only_step)
qed

lemma page_at_most_one_subscription:
  "page_exec page_init evs = Some st \<Longrightarrow>
   length (p_channels st) \<le> 1 \<and>
   p_channels (page_subscribeToOrderUpdates orderId st)
     = [\<lparr>chan_handle = p_next_handle st, chan_order = orderId\<rparr>]"
proof -
  assume "page_exec page_init evs = Some st"
  moreover have "page_held_only page_init"
    by (simp add: page_held_only_def page_init_def)
  ultimately have "page_held_only st"
    by (rule page_held_only_exec [rotated])
  then show ?thesis
    by (auto simp: page_held_only_cases page_subscribeToOrderUpdates_def page_removeChannel_def
        Let_def split: option.splits)
qed

section \<open>Searching\<close>

text \<open>
  C6. An order number is trimmed to the empty string exactly when it is empty or consists
  of white space only, and for such a number \<open>handleSearch\<close> returns at once: it starts
  no fetch and the whole state (\<open>loading\<close>, \<open>searched\<close>, \<open>trackingData\<close>, the
  subscription and all the rest) is as before.
\<close>

theorem blank_search_is_noop:
  "(trim orderNumber = [] \<longleftrightarrow> (\<forall>c \<in> set orderNumber. isWhiteSpace c)) \<and>
   (trim orderNumber = [] \<longrightarrow>
      handleSearch_start orderNumber st = st \<and> handleSearch orderNumber res1 res2 st = st \<and>
      step st (Search orderNumber) = Some st)"
  by (simp add: trim_empty_iff handleSearch_start_def handleSearch_def)

theorem blank_search_is_noop_witness:
  "trim [0x20, 0x3000, 0x9, 0xA] = [] \<and>
   handleSearch_start [0x20, 0x3000, 0x9, 0xA] sample_state = sample_state \<and>
   handleSearch [0x20, 0x3000, 0x9, 0xA] (Resolved (found sample_order))
     (Resolved (found [], found [])) sample_state = sample_state \<and>
   trim [] = [] \<and> handleSearch_start [] sample_state = sample_state"
  using blank_search_is_noop [of "[0x20, 0x3000, 0x9, 0xA]" sample_state
      "Resolved (found sample_order)" "Resolved (found [], found [])"]
    blank_search_is_noop [of "[]" sample_state]
  by (simp add: isWhiteSpace_def)

text \<open>
  C7, as amended. Take a search for a number that is not blank, anything that happens
  after its start, and then its lookup resolving with no row and no error. At that
  point \<open>searched\<close> is true and \<open>loading\<close> is cleared; the not-found text, which is
  not the fallback text, is reported as an error through \<open>showMessage\<close> (a toast, or a
  console line when the hook was given no callback); the continuation creates no channel,
  starts no further fetch and leaves \<open>trackingData\<close> as it finds it. So
  \<open>trackingData\<close> is null, the state of no result, when no call of \<open>handleSearch\<close> has
  published a session since this search started; when the search runs alone, the channels
  and the ref are those from before the search.
\<close>

theorem not_found_search:
  assumes "trim orderNumber \<noteq> []" and "error r = None" and "data r = None"
    and "exec (handleSearch_start orderNumber st) evs = Some st1"
    and "step st1 (OrderFetched (trim orderNumber) (Resolved r)) = Some st'"
  shows "searched st' \<and> \<not> loading st' \<and>
    (if toastMessage st1
     then toasts st' = toasts st1 @ [(Error, MSG_NOT_FOUND)] \<and> console st' = console st1
     else console st' = console st1 @ [ConsoleLog Error MSG_NOT_FOUND] \<and> toasts st' = toasts st1) \<and>
    MSG_NOT_FOUND \<noteq> MSG_QUERY_FAILED \<and>
    channels st' = channels st1 \<and> subscriptionRef st' = subscriptionRef st1 \<and>
    next_handle st' = next_handle st1 \<and>
    (\<forall>orderData. AwaitSecondary orderData \<in> set (fetches st') \<longrightarrow>
       AwaitSecondary orderData \<in> set (fetches st1)) \<and>
    trackingData st' = trackingData st1 \<and>
    ((\<forall>e \<in> set evs. \<not> publishes e) \<longrightarrow> trackingData st' = None) \<and>
    (evs = [] \<longrightarrow> st' = handleSearch orderNumber (Resolved r) res2 st \<and>
       channels st' = channels st \<and> subscriptionRef st' = subscriptionRef st)"
proof -
  have s0: "searched (handleSearch_start orderNumber st)"
    "trackingData (handleSearch_start orderNumber st) = None"
    using assms(1) by (simp_all add: handleSearch_start_def)
  have s1: "searched st1"
    using searched_exec [OF s0(1) assms(4)] .
  have n1: "trackingData st1 = None" if "\<forall>e \<in> set evs. \<not> publishes e"
    using no_session_exec [OF s0(2) that assms(4)] .
  have st': "st' = handleSearch_order (trim orderNumber) (Resolved r) st1"
    using assms(5) by (simp split: if_splits)
  have alone: "st' = handleSearch orderNumber (Resolved r) res2 st \<and>
      channels st' = channels st \<and> subscriptionRef st' = subscriptionRef st" if "evs = []"
    using that assms(1,2,3,4) st'
    by (auto simp: search_defs Let_def)
  have rest: "searched st' \<and> \<not> loading st' \<and>
    (if toastMessage st1
     then toasts st' = toasts st1 @ [(Error, MSG_NOT_FOUND)] \<and> console st' = console st1
     else console st' = console st1 @ [ConsoleLog Error MSG_NOT_FOUND] \<and> toasts st' = toasts st1) \<and>
    channels st' = channels st1 \<and> subscriptionRef st' = subscriptionRef st1 \<and>
    next_handle st' = next_handle st1 \<and>
    (\<forall>orderData. AwaitSecondary orderData \<in> set (fetches st') \<longrightarrow>
       AwaitSecondary orderData \<in> set (fetches st1)) \<and>
    trackingData st' = trackingData st1"
    using s1 assms(2,3) unfolding st'
    by (auto simp: search_defs Let_def dest: notin_set_remove1)
  have none: "(\<forall>e \<in> set evs. \<not> publishes e) \<longrightarrow> trackingData st' = None"
    using rest n1 by simp
  have run: "evs = [] \<longrightarrow> st' = handleSearch orderNumber (Resolved r) res2 st \<and>
      channels st' = channels st \<and> subscriptionRef st' = subscriptionRef st"
    using alone by (rule impI)
  show ?thesis
    using rest none run texts_differ by (elim conjE) (intro conjI; assumption)
qed

theorem not_found_search_witness:
  "trim [0x20, 0x58, 0x39] \<noteq> [] \<and>
   map_option searched (exec sample_state
     [Search [0x20, 0x58, 0x39], Delivered sample_channel (OrderUpdate sample_order_delivered),
      OrderFetched [0x58, 0x39] (Resolved no_row)]) = Some True \<and>
   map_option trackingData (exec sample_state
     [Search [0x20, 0x58, 0x39], Delivered sample_channel (OrderUpdate sample_order_delivered),
      OrderFetched [0x58, 0x39] (Resolved no_row)]) = Some None \<and>
   map_option loading (exec sample_state
     [Search [0x20, 0x58, 0x39], Delivered sample_channel (OrderUpdate sample_order_delivered),
      OrderFetched [0x58, 0x39] (Resolved no_row)]) = Some False \<and>
   map_option toasts (exec sample_state
     [Search [0x20, 0x58, 0x39], Delivered sample_channel (OrderUpdate sample_order_delivered),
      OrderFetched [0x58, 0x39] (Resolved no_row)]) = Some [(Error, MSG_NOT_FOUND)] \<and>
   map_option channels (exec sample_state
     [Search [0x20, 0x58, 0x39], Delivered sample_channel (OrderUpdate sample_order_delivered),
      OrderFetched [0x58, 0x39] (Resolved no_row)]) = Some [sample_channel]"
proof -
  let ?st1 = "handle_change (OrderUpdate sample_order_delivered)
      (handleSearch_start [0x20, 0x58, 0x39] sample_state)"
  have t: "trim [0x20, 0x58, 0x39] = ([0x58, 0x39] :: js_string)"
    by (simp add: trim_def isWhiteSpace_def)
  have a: "trim [0x20, 0x58, 0x39] \<noteq> ([] :: js_string)"
    by (simp add: t)
  have b: "exec (handleSearch_start [0x20, 0x58, 0x39] sample_state)
      [Delivered sample_channel (OrderUpdate sample_order_delivered)] = Some ?st1"
    by (simp add: sample_defs handleSearch_start_def t)
  have c: "step ?st1 (OrderFetched (trim [0x20, 0x58, 0x39]) (Resolved no_row))
      = Some (handleSearch_order [0x58, 0x39] (Resolved no_row) ?st1)"
    by (simp add: t handleSearch_start_def handler_defs sample_state_def init_def)
  have d: "\<forall>e \<in> set [Delivered sample_channel (OrderUpdate sample_order_delivered)]. \<not> publishes e"
    by simp
  from not_found_search [of _ _ _ _ _ _ "Resolved (found [], found [])", OF a _ _ b c] d
  show ?thesis
    using b c by (simp add: no_row_def t sample_defs run_defs)
qed

text \<open>
  C7, as stated, fails when searches overlap, which nothing in \<open>handleSearch\<close>
  prevents. The user searches for an unknown number and, before the result is there, for
  a known one. The second search finds its order, publishes the session and subscribes;
  then the first lookup resolves with no row: the not-found text is shown, and
  \<open>trackingData\<close> still holds the session of the second search, with its channel live.
\<close>

theorem overlapping_not_found_keeps_session:
  "map_option trackingData (exec (init True) overlapping_searches) = Some (Some sample_session) \<and>
   map_option channels (exec (init True) overlapping_searches) = Some [sample_channel] \<and>
   map_option toasts (exec (init True) overlapping_searches) = Some [(Error, MSG_NOT_FOUND)] \<and>
   map_option searched (exec (init True) overlapping_searches) = Some True \<and>
   map_option loading (exec (init True) overlapping_searches) = Some False \<and>
   map_option fetches (exec (init True) overlapping_searches) = Some []"
  by (simp add: overlapping_searches_def sample_defs run_defs)

text \<open>
  C8. A search whose lookup finds an order and whose trajectory fetch or item fetch
  resolves to a failure publishes the order all the same: \<open>trackingData\<close> holds the
  fetched order, the list of a failed fetch is empty and the list of a fetch that did not
  fail is its data. Each reported error is logged on the console; no message is shown
  (the catch block is not entered), \<open>loading\<close> ends and the subscription is made.
\<close>

theorem secondary_failure_degrades:
  assumes "trim orderNumber \<noteq> []" and "error r = None" and "data r = Some orderData"
    and "failed trajectoryResult \<or> failed itemsResult"
    and "st' = handleSearch orderNumber (Resolved r) (Resolved (trajectoryResult, itemsResult)) st"
  shows "\<exists>session. trackingData st' = Some session \<and> order session = orderData \<and>
      (if failed trajectoryResult then trajectories session = []
       else trajectories session = (case data trajectoryResult of Some ts \<Rightarrow> ts | None \<Rightarrow> [])) \<and>
      (if failed itemsResult then orderItems session = []
       else orderItems session = (case data itemsResult of Some its \<Rightarrow> its | None \<Rightarrow> [])) \<and>
      (\<forall>e. error trajectoryResult = Some e \<longrightarrow>
         ConsoleError MSG_TRAJECTORY_LOAD_FAILED e \<in> set (console st')) \<and>
      (\<forall>e. error itemsResult = Some e \<longrightarrow>
         ConsoleError MSG_ITEMS_LOAD_FAILED e \<in> set (console st')) \<and>
      toasts st' = toasts st \<and>
      (\<forall>ty m. ConsoleLog ty m \<in> set (console st') \<longrightarrow> ConsoleLog ty m \<in> set (console st)) \<and>
      searched st' \<and> \<not> loading st' \<and>
      subscriptionRef st' = Some \<lparr>chan_handle = next_handle st, chan_order = o_id orderData\<rparr>"
  using assms
  by (auto simp: search_defs failed_def Let_def split: option.splits)

theorem secondary_failure_degrades_witness:
  "trim [0x4F, 0x52, 0x44, 0x31] \<noteq> [] \<and>
   failed (failure (ErrorInstance [0x65]) :: TrajectoryPoint list response) \<and>
   trackingData (handleSearch [0x4F, 0x52, 0x44, 0x31] (Resolved (found sample_order))
       (Resolved (failure (ErrorInstance [0x65]), found [sample_item])) (init False))
     = Some \<lparr>order = sample_order, trajectories = [], orderItems = [sample_item]\<rparr> \<and>
   console (handleSearch [0x4F, 0x52, 0x44, 0x31] (Resolved (found sample_order))
       (Resolved (failure (ErrorInstance [0x65]), found [sample_item])) (init False))
     = [ConsoleError MSG_TRAJECTORY_LOAD_FAILED (ErrorInstance [0x65])] \<and>
   toasts (handleSearch [0x4F, 0x52, 0x44, 0x31] (Resolved (found sample_order))
       (Resolved (failure (ErrorInstance [0x65]), found [sample_item])) (init False)) = []"
  using secondary_failure_degrades [of "[0x4F, 0x52, 0x44, 0x31]" "found sample_order"
      sample_order "failure (ErrorInstance [0x65])" "found [sample_item]" _ "init False",
      OF _ _ _ _ refl]
  by (simp add: search_defs trim_def isWhiteSpace_def failed_def found_def failure_def
      init_def Let_def)

section \<open>Unmounting while a fetch is in flight\<close>

text \<open>
  C3. When the view is unmounted while a search's fetch is in flight, the fetch's result
  should change no state and create no subscription. The hook does otherwise. The user
  searches, the view is unmounted while the lookup is in flight (no channel is live then,
  and \<open>loading\<close> is true), and then the lookup and the two secondary fetches resolve:
  \<open>setTrackingData\<close> is called with the session, \<open>loading\<close> is cleared, and a new
  channel is live and stored in the ref, with no cleanup left to remove it.
\<close>

theorem unmount_mid_fetch_subscribes:
  "map_option channels (exec (init True) (take 2 unmount_mid_fetch)) = Some [] \<and>
   map_option fetches (exec (init True) (take 2 unmount_mid_fetch))
     = Some [AwaitOrder [0x4F, 0x52, 0x44, 0x31]] \<and>
   map_option channels (exec (init True) unmount_mid_fetch) = Some [sample_channel] \<and>
   map_option subscriptionRef (exec (init True) unmount_mid_fetch) = Some (Some sample_channel) \<and>
   map_option trackingData (exec (init True) unmount_mid_fetch) = Some (Some sample_session) \<and>
   map_option loading (exec (init True) (take 2 unmount_mid_fetch)) = Some True \<and>
   map_option loading (exec (init True) unmount_mid_fetch) = Some False"
  by (simp add: unmount_mid_fetch_def sample_defs run_defs)

text \<open>
  What the hook does in general: the cleanup removes the channel that the hook holds, so
  that no channel is live right after it; it cancels no fetch, and the hook keeps no flag
  that tells its callbacks of the unmount. A fetch that resolves afterwards with its
  results runs the same continuation as in a mounted view: it calls \<open>setTrackingData\<close>
  with the fetched session and \<open>subscribeToOrderUpdates\<close> makes one new channel live. A
  lookup that is rejected or resolves to an error or to no row creates no channel,
  publishes no session and starts no further fetch.
\<close>

lemma fetch_after_unmount:
  assumes "exec (init tm) evs = Some st"
    and "u = cleanupSubscription st"
  shows "channels u = [] \<and> fetches u = fetches st \<and> trackingData u = trackingData st \<and>
    channels (handleSearch_secondary orderData (Resolved (trajectoryResult, itemsResult)) u)
      = [\<lparr>chan_handle = next_handle st, chan_order = o_id orderData\<rparr>] \<and>
    trackingData (handleSearch_secondary orderData (Resolved (trajectoryResult, itemsResult)) u)
      = Some \<lparr>order = orderData,
          trajectories = (case data trajectoryResult of Some ts \<Rightarrow> ts | None \<Rightarrow> []),
          orderItems = (case data itemsResult of Some its \<Rightarrow> its | None \<Rightarrow> [])\<rparr> \<and>
    (\<forall>res. (\<forall>r. res = Resolved r \<longrightarrow> error r \<noteq> None \<or> data r = None) \<longrightarrow>
       channels (handleSearch_order n res u) = [] \<and>
       trackingData (handleSearch_order n res u) = trackingData st \<and>
       (\<forall>orderData. AwaitSecondary orderData \<in> set (fetches (handleSearch_order n res u)) \<longrightarrow>
          AwaitSecondary orderData \<in> set (fetches st)))"
proof -
  have h: "held_only st"
    using held_only_exec [OF held_only_init assms(1)] .
  have u: "held_only u" "channels u = []" "next_handle u = next_handle st"
    "fetches u = fetches st" "trackingData u = trackingData st"
    using h by (simp_all add: assms(2) held_only_cleanup channels_cleanup)
      (simp_all add: cleanupSubscription_def removeChannel_def split: option.splits)
  have a: "trackingData (handleSearch_secondary orderData (Resolved (trajectoryResult, itemsResult)) u)
      = Some \<lparr>order = orderData,
          trajectories = (case data trajectoryResult of Some ts \<Rightarrow> ts | None \<Rightarrow> []),
          orderItems = (case data itemsResult of Some its \<Rightarrow> its | None \<Rightarrow> [])\<rparr>"
    by (simp add: handleSearch_secondary_def handleSearch_finally_def subscribeToOrderUpdates_def
        removeChannel_def Let_def split: option.splits)
  have b: "channels (handleSearch_order n res u) = channels u"
    "trackingData (handleSearch_order n res u) = trackingData u" for res
    by (simp_all add: handleSearch_order_def handleSearch_catch_def handleSearch_finally_def
        showMessage_def Let_def split: awaited.splits option.splits)
  have c: "AwaitSecondary orderData \<in> set (fetches (handleSearch_order n res u)) \<Longrightarrow>
      \<forall>r. res = Resolved r \<longrightarrow> error r \<noteq> None \<or> data r = None \<Longrightarrow>
      AwaitSecondary orderData \<in> set (fetches u)" for res orderData
    by (auto simp: handleSearch_order_def handleSearch_catch_def handleSearch_finally_def
        showMessage_def Let_def split: awaited.splits option.splits if_splits
        dest: notin_set_remove1)
  show ?thesis
    using u a b c channels_secondary [OF u(1), of orderData trajectoryResult itemsResult]
    by auto
qed

lemma fetch_after_unmount_example:
  "map_option (\<lambda>st. channels (cleanupSubscription st)) (exec (init True) two_searches) = Some [] \<and>
   map_option (\<lambda>st. channels (handleSearch_secondary sample_order
        (Resolved (found [sample_point 10], found [])) (cleanupSubscription st)))
     (exec (init True) two_searches) = Some [\<lparr>chan_handle = 2, chan_order = [0x41, 0x31]\<rparr>] \<and>
   map_option (\<lambda>st. channels (handleSearch_order [0x58] (Resolved no_row) (cleanupSubscription st)))
     (exec (init True) two_searches) = Some []"
proof -
  obtain st where e: "exec (init True) two_searches = Some st" and n: "next_handle st = 2"
    using two_searches_run by blast
  have "\<forall>r. (Resolved no_row :: Order response awaited) = Resolved r \<longrightarrow>
      error r \<noteq> None \<or> data r = None"
    by (simp add: no_row_def)
  with fetch_after_unmount [OF e refl, of sample_order "found [sample_point 10]" "found []" "[0x58]"]
  show ?thesis
    using e n by (simp add: sample_order_def)
qed

section \<open>The map component's errors\<close>

text \<open>
  C9. When the key or the security code is missing, the effect shows the configuration
  error and clears \<open>loading\<close>, and in the whole run of that mount nothing else is shown
  and \<open>loading\<close> stays cleared. While the view has not been torn down, a rejection of
  the SDK's loader and an \<open>error\<close> event of the map each show one error and clear
  \<open>loading\<close>. After either of these two reports, whatever happens next and whether or
  not the view had been torn down before, the overlay is never shown again.
\<close>

theorem map_error_ends_loading:
  "(\<not> truthy key \<or> \<not> truthy securityCode \<longrightarrow>
      \<not> map_loading (map_effect key securityCode st) \<and>
      message_errors (map_effect key securityCode st) = message_errors st @ [MSG_MAP_CONFIG] \<and>
      (\<forall>evs st'. map_exec (map_effect key securityCode (map_init lp)) evs = Some st' \<longrightarrow>
         \<not> map_loading st' \<and> message_errors st' = [MSG_MAP_CONFIG])) \<and>
   (\<not> destroyed st \<longrightarrow>
      \<not> map_loading (initMap_loaded (Rejected e) st) \<and>
      message_errors (initMap_loaded (Rejected e) st) = message_errors st @ [MSG_MAP_CONNECT] \<and>
      \<not> map_loading (on_error st) \<and>
      message_errors (on_error st) = message_errors st @ [MSG_MAP_ERROR]) \<and>
   ((ev = MapErrorEvent \<or> ev = LoaderSettled (Rejected e)) \<and> map_step st ev = Some st1 \<and>
      map_exec st1 evs = Some st' \<longrightarrow> \<not> overlay_shown st')"
proof -
  have cfg: "\<not> map_loading (map_effect key securityCode s) \<and>
      message_errors (map_effect key securityCode s) = message_errors s @ [MSG_MAP_CONFIG] \<and>
      awaiting_loader (map_effect key securityCode s) = awaiting_loader s \<and>
      frames (map_effect key securityCode s) = frames s \<and>
      listening (map_effect key securityCode s) = listening s"
    if "\<not> truthy key \<or> \<not> truthy securityCode" for s
    using that by (auto simp: map_effect_def initMap_def Let_def)
  have run: "\<not> map_loading st' \<and> message_errors st' = [MSG_MAP_CONFIG]"
    if c: "\<not> truthy key \<or> \<not> truthy securityCode"
      and r: "map_exec (map_effect key securityCode (map_init lp)) evs = Some st'" for evs st'
  proof -
    have "idle (map_effect key securityCode (map_init lp))"
      using cfg [OF c, of "map_init lp"] by (simp add: idle_def map_init_def)
    from idle_exec [OF this r] map_loading_exec [OF _ r] cfg [OF c, of "map_init lp"]
    show ?thesis by (simp add: map_init_def)
  qed
  have sdk: "\<not> map_loading (initMap_loaded (Rejected e) st) \<and>
      message_errors (initMap_loaded (Rejected e) st) = message_errors st @ [MSG_MAP_CONNECT] \<and>
      \<not> map_loading (on_error st) \<and>
      message_errors (on_error st) = message_errors st @ [MSG_MAP_ERROR]"
    if "\<not> destroyed st"
    using that by (simp add: initMap_loaded_def on_error_def Let_def)
  have later: "\<not> overlay_shown st'"
    if "ev = MapErrorEvent \<or> ev = LoaderSettled (Rejected e)" "map_step st ev = Some st1"
      "map_exec st1 evs = Some st'"
    using overlay_exec [OF overlay_error [OF that(2) that(1)] that(3)] .
  show ?thesis
    using cfg run sdk later by blast
qed

theorem map_error_ends_loading_witness:
  "\<not> truthy None \<and>
   \<not> map_loading (map_effect None (Some [0x73]) (map_init False)) \<and>
   message_errors (map_effect None (Some [0x73]) (map_init False)) = [MSG_MAP_CONFIG] \<and>
   \<not> destroyed (map_effect (Some [0x6B]) (Some [0x73]) (map_init False)) \<and>
   overlay_shown (map_effect (Some [0x6B]) (Some [0x73]) (map_init False)) \<and>
   map_option map_loading
     (map_exec (map_effect (Some [0x6B]) (Some [0x73]) (map_init False))
        [LoaderSettled (Rejected NotErrorInstance)]) = Some False \<and>
   map_option message_errors
     (map_exec (map_effect (Some [0x6B]) (Some [0x73]) (map_init False))
        [LoaderSettled (Rejected NotErrorInstance), MapCleanup]) = Some [MSG_MAP_CONNECT] \<and>
   map_option overlay_shown
     (map_exec (map_effect (Some [0x6B]) (Some [0x73]) (map_init False))
        [LoaderSettled (Resolved ()), Frame 1, MapErrorEvent, MapComplete]) = Some False \<and>
   map_option message_errors
     (map_exec (map_effect (Some [0x6B]) (Some [0x73]) (map_init False))
        [LoaderSettled (Resolved ()), Frame 1, MapErrorEvent, MapComplete]) = Some [MSG_MAP_ERROR]"
  using map_error_ends_loading [of None "Some [0x73]" "map_init False" False NotErrorInstance]
    map_error_ends_loading [of "Some [0x6B]" "Some [0x73]"
      "map_effect (Some [0x6B]) (Some [0x73]) (map_init False)" False NotErrorInstance
      "LoaderSettled (Rejected NotErrorInstance)"
      "initMap_loaded (Rejected NotErrorInstance) (map_effect (Some [0x6B]) (Some [0x73]) (map_init False))"
      "[MapCleanup]"
      "map_cleanup (initMap_loaded (Rejected NotErrorInstance) (map_effect (Some [0x6B]) (Some [0x73]) (map_init False)))"]
  by (simp add: truthy_def map_init_def map_defs overlay_shown_def Let_def)

end
